theory Spec2Isabelle
  imports Main
begin

section \<open>Weak handles: the data model\<close>

text \<open>
  The header \<^verbatim>\<open>weak_handle.h\<close> (namespace \<^verbatim>\<open>browser_sync\<close>) defines
  \<^verbatim>\<open>WeakHandle<T>\<close>, a copyable value holding a counted reference to a
  \<^verbatim>\<open>WeakHandleCore<T>\<close>. The core owns a heap-allocated \<^verbatim>\<open>base::WeakPtr<T>\<close>
  and the message loop proxy of the thread that created it.

  The embedding runs the program over an explicit world: the heap of cores, the heap of
  weak-pointer cells, the liveness of the target objects, one task queue per thread, and
  two logs. The thread that executes an operation is an explicit argument of the
  operation. The log \<open>accesses\<close> records which thread constructed, read or destroyed
  which weak-pointer cell; the log \<open>invoked\<close> records each call of a member function
  on a target object (the body of the member function is not part of the header).
\<close>

type_synonym thread_id = nat
type_synonym core_ref = nat
type_synonym ptr_addr = nat
type_synonym target_id = nat

text \<open>
  A \<^verbatim>\<open>base::WeakPtr<T>\<close> value: null, or a reference to a target object that may
  have been destroyed since.
\<close>

datatype WeakPtr = WeakPtr "target_id option"

text \<open>
  The ways an operation can fail to return: a failed \<^verbatim>\<open>CHECK\<close>, which halts the
  process, and an access through a pointer whose object is gone, to which C++ gives no
  meaning.
\<close>

datatype fatal = CheckFailed | InvalidMemoryAccess

datatype AccessKind = Construct | Read | Destroy

datatype Access = Access (acc_kind: AccessKind) (acc_thread: thread_id) (acc_addr: ptr_addr)

datatype ('m, 'a) Invoked =
  Invoked (inv_thread: thread_id) (inv_target: target_id) (inv_member: 'm) (inv_args: "'a list")

text \<open>
  The closures that \<^verbatim>\<open>WeakHandleCore::Call\<close> binds: one of the five
  \<^verbatim>\<open>DoCallN\<close> members, the core (\<^verbatim>\<open>this\<close>), the member pointer and the
  arguments.
\<close>

datatype ('m, 'a) Closure =
    BindDoCall0 core_ref 'm
  | BindDoCall1 core_ref 'm 'a
  | BindDoCall2 core_ref 'm 'a 'a
  | BindDoCall3 core_ref 'm 'a 'a 'a
  | BindDoCall4 core_ref 'm 'a 'a 'a 'a

datatype ('m, 'a) PendingTask =
    RunClosure "('m, 'a) Closure"
  | DeleteSoonTask ptr_addr

text \<open>
  The fields of the two classes. A name that ends in an underscore is not a name of a
  constant here, so \<^verbatim>\<open>message_loop_proxy_\<close>, \<^verbatim>\<open>ptr_\<close> and
  \<^verbatim>\<open>core_\<close> lose theirs; \<open>ref_count\<close> is the count that
  \<^verbatim>\<open>base::RefCountedThreadSafe\<close> keeps.
\<close>

record WeakHandleCore =
  message_loop_proxy :: thread_id
  ptr :: ptr_addr
  ref_count :: nat

record ('m, 'a) World =
  cores :: "core_ref \<rightharpoonup> WeakHandleCore"
  next_core :: core_ref
  weak_ptrs :: "ptr_addr \<rightharpoonup> WeakPtr"
  next_ptr :: ptr_addr
  alive :: "target_id \<Rightarrow> bool"
  queues :: "thread_id \<Rightarrow> ('m, 'a) PendingTask list"
  accesses :: "Access list"
  invoked :: "('m, 'a) Invoked list"

record WeakHandle =
  core :: "core_ref option"

text \<open>
  Sequencing of operations that may halt: the first failure is the outcome.
\<close>

definition andThen :: "fatal + 'x \<Rightarrow> ('x \<Rightarrow> fatal + 'y) \<Rightarrow> fatal + 'y" where
  "andThen r f = (case r of Inl e \<Rightarrow> Inl e | Inr x \<Rightarrow> f x)"

section \<open>The collaborators of the header\<close>

text \<open>
  Modelled from the spec: \<^verbatim>\<open>base::WeakPtr<T>::get\<close>, which the header calls and
  does not define. The weak-reference primitive must "resolve to a live pointer or an
  empty result": a null weak pointer and a weak pointer whose target has been destroyed
  both resolve to nothing.
\<close>

definition WeakPtr_get :: "(target_id \<Rightarrow> bool) \<Rightarrow> WeakPtr \<Rightarrow> target_id option" where
  "WeakPtr_get live p =
     (case p of
        WeakPtr None \<Rightarrow> None
      | WeakPtr (Some t) \<Rightarrow> (if live t then Some t else None))"

text \<open>
  The three things the header does to the weak-pointer cell it owns:
  \<^verbatim>\<open>new base::WeakPtr<T>(ptr)\<close>, a read through \<^verbatim>\<open>ptr_\<close>, and
  \<^verbatim>\<open>delete ptr\<close>. Each one appends to \<open>accesses\<close> the executing thread and
  the cell. A cell is allocated at an address that was never used before.
\<close>

definition new_WeakPtr ::
  "thread_id \<Rightarrow> WeakPtr \<Rightarrow> ('m, 'a) World \<Rightarrow> ptr_addr \<times> ('m, 'a) World" where
  "new_WeakPtr tid p w =
     (next_ptr w,
      w\<lparr>weak_ptrs := (weak_ptrs w)(next_ptr w \<mapsto> p),
        next_ptr := Suc (next_ptr w),
        accesses := accesses w @ [Access Construct tid (next_ptr w)]\<rparr>)"

definition read_WeakPtr ::
  "thread_id \<Rightarrow> ptr_addr \<Rightarrow> ('m, 'a) World \<Rightarrow> fatal + (WeakPtr \<times> ('m, 'a) World)" where
  "read_WeakPtr tid a w =
     (case weak_ptrs w a of
        None \<Rightarrow> Inl InvalidMemoryAccess
      | Some p \<Rightarrow> Inr (p, w\<lparr>accesses := accesses w @ [Access Read tid a]\<rparr>))"

definition delete_WeakPtr ::
  "thread_id \<Rightarrow> ptr_addr \<Rightarrow> ('m, 'a) World \<Rightarrow> fatal + ('m, 'a) World" where
  "delete_WeakPtr tid a w =
     (case weak_ptrs w a of
        None \<Rightarrow> Inl InvalidMemoryAccess
      | Some p \<Rightarrow>
          Inr (w\<lparr>weak_ptrs := (weak_ptrs w)(a := None),
                 accesses := accesses w @ [Access Destroy tid a]\<rparr>))"

text \<open>The expression \<^verbatim>\<open>ptr_->get()\<close>: a read of the cell, then the resolution.\<close>

definition ptr_get ::
  "thread_id \<Rightarrow> ptr_addr \<Rightarrow> ('m, 'a) World \<Rightarrow> fatal + (target_id option \<times> ('m, 'a) World)" where
  "ptr_get tid a w =
     andThen (read_WeakPtr tid a w) (\<lambda>(p, w1). Inr (WeakPtr_get (alive w1) p, w1))"

text \<open>
  The expression \<^verbatim>\<open>(obj->*fn)(a1, ..., an)\<close>: the member function runs on the
  executing thread. Its body belongs to the target's class; the call is recorded.
\<close>

definition call_member ::
  "thread_id \<Rightarrow> target_id \<Rightarrow> 'm \<Rightarrow> 'a list \<Rightarrow> ('m, 'a) World \<Rightarrow> ('m, 'a) World" where
  "call_member tid obj fn args w = w\<lparr>invoked := invoked w @ [Invoked tid obj fn args]\<rparr>"

text \<open>
  Modelled from the spec: \<^verbatim>\<open>base::MessageLoopProxy::BelongsToCurrentThread\<close>. The
  task queue of a thread must "query whether the calling thread is thread T". A proxy is
  identified with the thread whose loop it stands for.
\<close>

definition BelongsToCurrentThread :: "thread_id \<Rightarrow> thread_id \<Rightarrow> bool" where
  "BelongsToCurrentThread proxy tid = (proxy = tid)"

text \<open>
  Modelled from the spec: the queue behind a \<^verbatim>\<open>base::MessageLoopProxy\<close>. "Posting
  must preserve per-submitter FIFO ordering": a posted task goes to the back of the queue
  of the proxy's thread. The loop is taken to outlive every core, so a post is never
  refused.
\<close>

definition enqueue ::
  "thread_id \<Rightarrow> ('m, 'a) PendingTask \<Rightarrow> ('m, 'a) World \<Rightarrow> ('m, 'a) World" where
  "enqueue proxy task w = w\<lparr>queues := (queues w)(proxy := queues w proxy @ [task])\<rparr>"

text \<open>
  Modelled from the spec: \<^verbatim>\<open>base::MessageLoopProxy::DeleteSoon\<close>, the "deferred
  deletion of a value on thread T". The header discards its result.
\<close>

definition DeleteSoon :: "thread_id \<Rightarrow> ptr_addr \<Rightarrow> ('m, 'a) World \<Rightarrow> ('m, 'a) World" where
  "DeleteSoon proxy p w = enqueue proxy (DeleteSoonTask p) w"

text \<open>
  Modelled from the spec: \<^verbatim>\<open>base::RefCountedThreadSafe::AddRef\<close>, as
  \<^verbatim>\<open>scoped_refptr\<close> calls it. "The Core is shared by every Handle copy derived from
  the same construction": a holder more is a count more.
\<close>

definition AddRef :: "core_ref \<Rightarrow> ('m, 'a) World \<Rightarrow> ('m, 'a) World" where
  "AddRef c w =
     w\<lparr>cores := (cores w)(c :=
          map_option (\<lambda>self. self\<lparr>ref_count := Suc (ref_count self)\<rparr>) (cores w c))\<rparr>"

section \<open>WeakHandleCoreBase\<close>

text \<open>
  Modelled from the spec: the constructor \<^verbatim>\<open>WeakHandleCoreBase()\<close>, declared in the
  header ("Assumes the current thread is the owner thread") and defined elsewhere. It
  "captures that thread's identity and task-queue reference": the value of
  \<^verbatim>\<open>message_loop_proxy_\<close> is the proxy of the constructing thread.
\<close>

definition WeakHandleCoreBase_ctor :: "thread_id \<Rightarrow> thread_id" where
  "WeakHandleCoreBase_ctor tid = tid"

text \<open>
  Modelled from the spec: \<^verbatim>\<open>WeakHandleCoreBase::IsOnOwnerThread\<close>, declared in the
  header and defined elsewhere: "returns whether the calling thread is the owner thread.
  Pure query, no side effects."
\<close>

definition IsOnOwnerThread :: "WeakHandleCore \<Rightarrow> thread_id \<Rightarrow> bool" where
  "IsOnOwnerThread self tid = BelongsToCurrentThread (message_loop_proxy self) tid"

text \<open>
  \<^verbatim>\<open>WeakHandleCoreBase::DeleteOnOwnerThread\<close>, as the header defines it:
  \<^verbatim>\<open>delete ptr\<close> on the owner thread, \<^verbatim>\<open>DeleteSoon\<close> on the proxy otherwise.
  The \<^verbatim>\<open>from_here\<close> argument of this and of every other member only names the
  calling site for tracing, and is left out.
\<close>

definition DeleteOnOwnerThread ::
  "thread_id \<Rightarrow> WeakHandleCore \<Rightarrow> ptr_addr \<Rightarrow> ('m, 'a) World \<Rightarrow> fatal + ('m, 'a) World" where
  "DeleteOnOwnerThread tid self p w =
     (if IsOnOwnerThread self tid then delete_WeakPtr tid p w
      else Inr (DeleteSoon (message_loop_proxy self) p w))"

section \<open>WeakHandleCore\<close>

text \<open>
  The constructor \<^verbatim>\<open>WeakHandleCore(const base::WeakPtr<T>& ptr)\<close>: the base
  constructor, then \<^verbatim>\<open>ptr_(new base::WeakPtr<T>(ptr))\<close>. The new core is not yet
  held by anyone.
\<close>

definition WeakHandleCore_ctor ::
  "thread_id \<Rightarrow> WeakPtr \<Rightarrow> ('m, 'a) World \<Rightarrow> core_ref \<times> ('m, 'a) World" where
  "WeakHandleCore_ctor tid p w =
     (case new_WeakPtr tid p w of
        (a, w1) \<Rightarrow>
          (next_core w1,
           w1\<lparr>cores := (cores w1)(next_core w1 \<mapsto>
                  \<lparr>message_loop_proxy = WeakHandleCoreBase_ctor tid, ptr = a, ref_count = 0\<rparr>),
              next_core := Suc (next_core w1)\<rparr>))"

text \<open>The destructor \<^verbatim>\<open>~WeakHandleCore()\<close>: "May be destroyed on any thread."\<close>

definition WeakHandleCore_dtor ::
  "thread_id \<Rightarrow> WeakHandleCore \<Rightarrow> ('m, 'a) World \<Rightarrow> fatal + ('m, 'a) World" where
  "WeakHandleCore_dtor tid self w = DeleteOnOwnerThread tid self (ptr self) w"

text \<open>
  Modelled from the spec: \<^verbatim>\<open>base::RefCountedThreadSafe::Release\<close>, as
  \<^verbatim>\<open>scoped_refptr\<close> calls it. The core "is destroyed when the last such Handle (or
  Core-holder) releases it", and "destruction may be requested from any thread": the
  release that leaves no holder runs the destructor on the releasing thread and frees the
  core. A release of a core that is gone, or that nobody holds, has no meaning.
\<close>

definition Release :: "thread_id \<Rightarrow> core_ref \<Rightarrow> ('m, 'a) World \<Rightarrow> fatal + ('m, 'a) World" where
  "Release tid c w =
     (case cores w c of
        None \<Rightarrow> Inl InvalidMemoryAccess
      | Some self \<Rightarrow>
          (if ref_count self = 0 then Inl InvalidMemoryAccess
           else if ref_count self = 1
             then WeakHandleCore_dtor tid self (w\<lparr>cores := (cores w)(c := None)\<rparr>)
           else Inr (w\<lparr>cores := (cores w)(c \<mapsto> self\<lparr>ref_count := ref_count self - 1\<rparr>)\<rparr>)))"

text \<open>\<^verbatim>\<open>WeakHandleCore::Get\<close>: "Must be called on ptr_'s owner thread."\<close>

definition WeakHandleCore_Get ::
  "thread_id \<Rightarrow> core_ref \<Rightarrow> ('m, 'a) World \<Rightarrow> fatal + (WeakPtr \<times> ('m, 'a) World)" where
  "WeakHandleCore_Get tid c w =
     (case cores w c of
        None \<Rightarrow> Inl InvalidMemoryAccess
      | Some self \<Rightarrow>
          (if \<not> IsOnOwnerThread self tid then Inl CheckFailed
           else read_WeakPtr tid (ptr self) w))"

text \<open>
  The private members \<^verbatim>\<open>DoCall0\<close> to \<^verbatim>\<open>DoCall4\<close>: the \<^verbatim>\<open>CHECK\<close>, the
  test \<^verbatim>\<open>if (!ptr_->get()) return;\<close> and the call
  \<^verbatim>\<open>(ptr_->get()->*fn)(...)\<close>, which resolves the weak pointer a second time.
\<close>

definition DoCall0 ::
  "thread_id \<Rightarrow> core_ref \<Rightarrow> 'm \<Rightarrow> ('m, 'a) World \<Rightarrow> fatal + ('m, 'a) World" where
  "DoCall0 tid c fn w =
     (case cores w c of
        None \<Rightarrow> Inl InvalidMemoryAccess
      | Some self \<Rightarrow>
          (if \<not> IsOnOwnerThread self tid then Inl CheckFailed
           else andThen (ptr_get tid (ptr self) w) (\<lambda>(r, w1).
             if r = None then Inr w1
             else andThen (ptr_get tid (ptr self) w1) (\<lambda>(r2, w2).
               case r2 of
                 None \<Rightarrow> Inl InvalidMemoryAccess
               | Some obj \<Rightarrow> Inr (call_member tid obj fn [] w2)))))"

definition DoCall1 ::
  "thread_id \<Rightarrow> core_ref \<Rightarrow> 'm \<Rightarrow> 'a \<Rightarrow> ('m, 'a) World \<Rightarrow> fatal + ('m, 'a) World" where
  "DoCall1 tid c fn a1 w =
     (case cores w c of
        None \<Rightarrow> Inl InvalidMemoryAccess
      | Some self \<Rightarrow>
          (if \<not> IsOnOwnerThread self tid then Inl CheckFailed
           else andThen (ptr_get tid (ptr self) w) (\<lambda>(r, w1).
             if r = None then Inr w1
             else andThen (ptr_get tid (ptr self) w1) (\<lambda>(r2, w2).
               case r2 of
                 None \<Rightarrow> Inl InvalidMemoryAccess
               | Some obj \<Rightarrow> Inr (call_member tid obj fn [a1] w2)))))"

definition DoCall2 ::
  "thread_id \<Rightarrow> core_ref \<Rightarrow> 'm \<Rightarrow> 'a \<Rightarrow> 'a \<Rightarrow> ('m, 'a) World \<Rightarrow> fatal + ('m, 'a) World" where
  "DoCall2 tid c fn a1 a2 w =
     (case cores w c of
        None \<Rightarrow> Inl InvalidMemoryAccess
      | Some self \<Rightarrow>
          (if \<not> IsOnOwnerThread self tid then Inl CheckFailed
           else andThen (ptr_get tid (ptr self) w) (\<lambda>(r, w1).
             if r = None then Inr w1
             else andThen (ptr_get tid (ptr self) w1) (\<lambda>(r2, w2).
               case r2 of
                 None \<Rightarrow> Inl InvalidMemoryAccess
               | Some obj \<Rightarrow> Inr (call_member tid obj fn [a1, a2] w2)))))"

definition DoCall3 ::
  "thread_id \<Rightarrow> core_ref \<Rightarrow> 'm \<Rightarrow> 'a \<Rightarrow> 'a \<Rightarrow> 'a \<Rightarrow> ('m, 'a) World \<Rightarrow> fatal + ('m, 'a) World" where
  "DoCall3 tid c fn a1 a2 a3 w =
     (case cores w c of
        None \<Rightarrow> Inl InvalidMemoryAccess
      | Some self \<Rightarrow>
          (if \<not> IsOnOwnerThread self tid then Inl CheckFailed
           else andThen (ptr_get tid (ptr self) w) (\<lambda>(r, w1).
             if r = None then Inr w1
             else andThen (ptr_get tid (ptr self) w1) (\<lambda>(r2, w2).
               case r2 of
                 None \<Rightarrow> Inl InvalidMemoryAccess
               | Some obj \<Rightarrow> Inr (call_member tid obj fn [a1, a2, a3] w2)))))"

definition DoCall4 ::
  "thread_id \<Rightarrow> core_ref \<Rightarrow> 'm \<Rightarrow> 'a \<Rightarrow> 'a \<Rightarrow> 'a \<Rightarrow> 'a \<Rightarrow> ('m, 'a) World
     \<Rightarrow> fatal + ('m, 'a) World" where
  "DoCall4 tid c fn a1 a2 a3 a4 w =
     (case cores w c of
        None \<Rightarrow> Inl InvalidMemoryAccess
      | Some self \<Rightarrow>
          (if \<not> IsOnOwnerThread self tid then Inl CheckFailed
           else andThen (ptr_get tid (ptr self) w) (\<lambda>(r, w1).
             if r = None then Inr w1
             else andThen (ptr_get tid (ptr self) w1) (\<lambda>(r2, w2).
               case r2 of
                 None \<Rightarrow> Inl InvalidMemoryAccess
               | Some obj \<Rightarrow> Inr (call_member tid obj fn [a1, a2, a3, a4] w2)))))"

section \<open>Closures, posting and the message loop\<close>

fun closure_core :: "('m, 'a) Closure \<Rightarrow> core_ref" where
  "closure_core (BindDoCall0 c fn) = c"
| "closure_core (BindDoCall1 c fn a1) = c"
| "closure_core (BindDoCall2 c fn a1 a2) = c"
| "closure_core (BindDoCall3 c fn a1 a2 a3) = c"
| "closure_core (BindDoCall4 c fn a1 a2 a3 a4) = c"

fun closure_member :: "('m, 'a) Closure \<Rightarrow> 'm" where
  "closure_member (BindDoCall0 c fn) = fn"
| "closure_member (BindDoCall1 c fn a1) = fn"
| "closure_member (BindDoCall2 c fn a1 a2) = fn"
| "closure_member (BindDoCall3 c fn a1 a2 a3) = fn"
| "closure_member (BindDoCall4 c fn a1 a2 a3 a4) = fn"

fun closure_args :: "('m, 'a) Closure \<Rightarrow> 'a list" where
  "closure_args (BindDoCall0 c fn) = []"
| "closure_args (BindDoCall1 c fn a1) = [a1]"
| "closure_args (BindDoCall2 c fn a1 a2) = [a1, a2]"
| "closure_args (BindDoCall3 c fn a1 a2 a3) = [a1, a2, a3]"
| "closure_args (BindDoCall4 c fn a1 a2 a3 a4) = [a1, a2, a3, a4]"

text \<open>
  Modelled from the spec: \<^verbatim>\<open>base::Bind\<close>. A closure is "a deferred, argument-bound
  unit of work" holding "the member and a thread-transferable copy of each argument",
  and it is a holder of the core it was bound to: every closure value counts as one
  reference, taken when the closure is bound or copied.
\<close>

definition Bind :: "('m, 'a) Closure \<Rightarrow> ('m, 'a) World \<Rightarrow> ('m, 'a) World" where
  "Bind fn w = AddRef (closure_core fn) w"

text \<open>
  Modelled from the spec: \<^verbatim>\<open>base::Closure::Run\<close>. Running a closure calls the
  member of the core that it bound, with the bound arguments, on the running thread.
\<close>

fun Closure_Run ::
  "thread_id \<Rightarrow> ('m, 'a) Closure \<Rightarrow> ('m, 'a) World \<Rightarrow> fatal + ('m, 'a) World" where
  "Closure_Run tid (BindDoCall0 c fn) w = DoCall0 tid c fn w"
| "Closure_Run tid (BindDoCall1 c fn a1) w = DoCall1 tid c fn a1 w"
| "Closure_Run tid (BindDoCall2 c fn a1 a2) w = DoCall2 tid c fn a1 a2 w"
| "Closure_Run tid (BindDoCall3 c fn a1 a2 a3) w = DoCall3 tid c fn a1 a2 a3 w"
| "Closure_Run tid (BindDoCall4 c fn a1 a2 a3 a4) w = DoCall4 tid c fn a1 a2 a3 a4 w"

text \<open>
  Modelled from the spec: the destructor of a \<^verbatim>\<open>base::Closure\<close>. The closure gives
  its reference back on the thread that destroys it.
\<close>

definition Closure_dtor ::
  "thread_id \<Rightarrow> ('m, 'a) Closure \<Rightarrow> ('m, 'a) World \<Rightarrow> fatal + ('m, 'a) World" where
  "Closure_dtor tid fn w = Release tid (closure_core fn) w"

text \<open>
  Modelled from the spec: \<^verbatim>\<open>MessageLoopProxy::PostTask\<close>. The queue keeps its own
  copy of the closure, at the back.
\<close>

definition PostTask ::
  "thread_id \<Rightarrow> ('m, 'a) Closure \<Rightarrow> ('m, 'a) World \<Rightarrow> ('m, 'a) World" where
  "PostTask proxy fn w = enqueue proxy (RunClosure fn) (Bind fn w)"

text \<open>
  Modelled from the spec: \<^verbatim>\<open>WeakHandleCoreBase::PostOnOwnerThread\<close>, declared in the
  header and defined elsewhere. "If the calling thread is already the owner thread, the
  call is dispatched synchronously in place (no scheduling overhead). Otherwise, the
  member and a thread-transferable copy of each argument are packaged into a deferred
  task and submitted to the owner thread's task queue."
\<close>

definition PostOnOwnerThread ::
  "thread_id \<Rightarrow> WeakHandleCore \<Rightarrow> ('m, 'a) Closure \<Rightarrow> ('m, 'a) World
     \<Rightarrow> fatal + ('m, 'a) World" where
  "PostOnOwnerThread tid self fn w =
     (if IsOnOwnerThread self tid then Closure_Run tid fn w
      else Inr (PostTask (message_loop_proxy self) fn w))"

text \<open>
  The public members \<^verbatim>\<open>WeakHandleCore::Call\<close>, one per number of arguments. Each is
  the single statement \<^verbatim>\<open>PostOnOwnerThread(from_here, Bind(&DoCallN, this, fn, ...))\<close>;
  the closure that \<^verbatim>\<open>Bind\<close> returns is a temporary of the calling thread, destroyed
  when the statement ends.
\<close>

definition post_bound ::
  "thread_id \<Rightarrow> core_ref \<Rightarrow> ('m, 'a) Closure \<Rightarrow> ('m, 'a) World \<Rightarrow> fatal + ('m, 'a) World" where
  "post_bound tid c fn w =
     (case cores w c of
        None \<Rightarrow> Inl InvalidMemoryAccess
      | Some self \<Rightarrow>
          andThen (PostOnOwnerThread tid self fn (Bind fn w)) (Closure_dtor tid fn))"

definition WeakHandleCore_Call0 ::
  "thread_id \<Rightarrow> core_ref \<Rightarrow> 'm \<Rightarrow> ('m, 'a) World \<Rightarrow> fatal + ('m, 'a) World" where
  "WeakHandleCore_Call0 tid c fn w = post_bound tid c (BindDoCall0 c fn) w"

definition WeakHandleCore_Call1 ::
  "thread_id \<Rightarrow> core_ref \<Rightarrow> 'm \<Rightarrow> 'a \<Rightarrow> ('m, 'a) World \<Rightarrow> fatal + ('m, 'a) World" where
  "WeakHandleCore_Call1 tid c fn a1 w = post_bound tid c (BindDoCall1 c fn a1) w"

definition WeakHandleCore_Call2 ::
  "thread_id \<Rightarrow> core_ref \<Rightarrow> 'm \<Rightarrow> 'a \<Rightarrow> 'a \<Rightarrow> ('m, 'a) World \<Rightarrow> fatal + ('m, 'a) World" where
  "WeakHandleCore_Call2 tid c fn a1 a2 w = post_bound tid c (BindDoCall2 c fn a1 a2) w"

definition WeakHandleCore_Call3 ::
  "thread_id \<Rightarrow> core_ref \<Rightarrow> 'm \<Rightarrow> 'a \<Rightarrow> 'a \<Rightarrow> 'a \<Rightarrow> ('m, 'a) World \<Rightarrow> fatal + ('m, 'a) World" where
  "WeakHandleCore_Call3 tid c fn a1 a2 a3 w = post_bound tid c (BindDoCall3 c fn a1 a2 a3) w"

definition WeakHandleCore_Call4 ::
  "thread_id \<Rightarrow> core_ref \<Rightarrow> 'm \<Rightarrow> 'a \<Rightarrow> 'a \<Rightarrow> 'a \<Rightarrow> 'a \<Rightarrow> ('m, 'a) World
     \<Rightarrow> fatal + ('m, 'a) World" where
  "WeakHandleCore_Call4 tid c fn a1 a2 a3 a4 w =
     post_bound tid c (BindDoCall4 c fn a1 a2 a3 a4) w"

text \<open>
  Modelled from the spec: what the message loop of a thread does with one task, on its
  own thread: a closure is run and then destroyed, a deferred deletion deletes the value.
\<close>

definition RunTask ::
  "thread_id \<Rightarrow> ('m, 'a) PendingTask \<Rightarrow> ('m, 'a) World \<Rightarrow> fatal + ('m, 'a) World" where
  "RunTask tid task w =
     (case task of
        RunClosure fn \<Rightarrow> andThen (Closure_Run tid fn w) (Closure_dtor tid fn)
      | DeleteSoonTask p \<Rightarrow> delete_WeakPtr tid p w)"

text \<open>
  Modelled from the spec: one turn of the message loop of a thread. It takes the task at
  the front of its own queue and runs it; with an empty queue the turn does nothing.
\<close>

definition RunPendingTask ::
  "thread_id \<Rightarrow> ('m, 'a) World \<Rightarrow> fatal + ('m, 'a) World" where
  "RunPendingTask tid w =
     (case queues w tid of
        [] \<Rightarrow> Inr w
      | task # rest \<Rightarrow> RunTask tid task (w\<lparr>queues := (queues w)(tid := rest)\<rparr>))"


section \<open>WeakHandle\<close>

text \<open>
  The member \<^verbatim>\<open>core_\<close> is a \<^verbatim>\<open>scoped_refptr\<close>: a handle that is bound
  holds one reference to its core. The two constructors of the header come first:
  \<^verbatim>\<open>WeakHandle()\<close>, "Creates an uninitialized WeakHandle", and
  \<^verbatim>\<open>WeakHandle(const base::WeakPtr<T>& ptr)\<close>, which makes a new core and takes the
  first reference to it.
\<close>

definition WeakHandle_default :: WeakHandle where
  "WeakHandle_default = \<lparr>core = None\<rparr>"

definition WeakHandle_ctor ::
  "thread_id \<Rightarrow> WeakPtr \<Rightarrow> ('m, 'a) World \<Rightarrow> WeakHandle \<times> ('m, 'a) World" where
  "WeakHandle_ctor tid p w =
     (case WeakHandleCore_ctor tid p w of (c, w1) \<Rightarrow> (\<lparr>core = Some c\<rparr>, AddRef c w1))"

text \<open>
  Modelled from the spec: the copy constructor, which the header leaves to the compiler
  ("Copying and assignment are welcome"). A copy "shares the underlying Core by
  incrementing its reference count; no restriction on which thread performs the copy".
\<close>

definition WeakHandle_copy ::
  "WeakHandle \<Rightarrow> ('m, 'a) World \<Rightarrow> fatal + (WeakHandle \<times> ('m, 'a) World)" where
  "WeakHandle_copy h w =
     (case core h of
        None \<Rightarrow> Inr (\<lparr>core = None\<rparr>, w)
      | Some c \<Rightarrow>
          (case cores w c of
             None \<Rightarrow> Inl InvalidMemoryAccess
           | Some self \<Rightarrow> Inr (\<lparr>core = Some c\<rparr>, AddRef c w)))"

text \<open>\<^verbatim>\<open>IsInitialized\<close>: \<^verbatim>\<open>return core_.get() != NULL;\<close>\<close>

definition IsInitialized :: "WeakHandle \<Rightarrow> bool" where
  "IsInitialized h = (core h \<noteq> None)"

text \<open>
  \<^verbatim>\<open>Reset\<close>: \<^verbatim>\<open>core_ = NULL;\<close>. The assignment to the \<^verbatim>\<open>scoped_refptr\<close>
  "releases one share of the prior Core" if there is one, on the calling thread.
\<close>

definition WeakHandle_Reset ::
  "thread_id \<Rightarrow> WeakHandle \<Rightarrow> ('m, 'a) World \<Rightarrow> fatal + (WeakHandle \<times> ('m, 'a) World)" where
  "WeakHandle_Reset tid h w =
     (case core h of
        None \<Rightarrow> Inr (h\<lparr>core := None\<rparr>, w)
      | Some c \<Rightarrow> andThen (Release tid c w) (\<lambda>w1. Inr (h\<lparr>core := None\<rparr>, w1)))"

text \<open>
  Modelled from the spec: the destructor, which the header leaves to the compiler. A
  handle is "destroyed when it goes out of use, which releases its share of the Core".
\<close>

definition WeakHandle_dtor ::
  "thread_id \<Rightarrow> WeakHandle \<Rightarrow> ('m, 'a) World \<Rightarrow> fatal + ('m, 'a) World" where
  "WeakHandle_dtor tid h w =
     (case core h of
        None \<Rightarrow> Inr w
      | Some c \<Rightarrow> Release tid c w)"

text \<open>
  Modelled from the spec: the copy assignment \<^verbatim>\<open>h = other\<close>, which the header
  leaves to the compiler ("Copying and assignment are welcome"). A handle is
  "copied/assigned from another Handle (shares the existing Core, if any)": the
  \<^verbatim>\<open>scoped_refptr\<close> takes a reference to the core of \<open>other\<close>, if it has one, and
  then gives back the reference it held.
\<close>

definition WeakHandle_assign ::
  "thread_id \<Rightarrow> WeakHandle \<Rightarrow> WeakHandle \<Rightarrow> ('m, 'a) World
     \<Rightarrow> fatal + (WeakHandle \<times> ('m, 'a) World)" where
  "WeakHandle_assign tid h other w =
     (case core other of
        None \<Rightarrow> andThen (WeakHandle_dtor tid h w) (\<lambda>w1. Inr (\<lparr>core = None\<rparr>, w1))
      | Some c \<Rightarrow>
          (case cores w c of
             None \<Rightarrow> Inl InvalidMemoryAccess
           | Some self \<Rightarrow>
               andThen (WeakHandle_dtor tid h (AddRef c w)) (\<lambda>w1. Inr (\<lparr>core = Some c\<rparr>, w1))))"

text \<open>
  \<^verbatim>\<open>Get\<close>: \<^verbatim>\<open>CHECK(IsInitialized()); CHECK(core_->IsOnOwnerThread());
  return core_->Get();\<close>
\<close>

definition WeakHandle_Get ::
  "thread_id \<Rightarrow> WeakHandle \<Rightarrow> ('m, 'a) World \<Rightarrow> fatal + (WeakPtr \<times> ('m, 'a) World)" where
  "WeakHandle_Get tid h w =
     (if \<not> IsInitialized h then Inl CheckFailed
      else case cores w (the (core h)) of
        None \<Rightarrow> Inl InvalidMemoryAccess
      | Some self \<Rightarrow>
          (if \<not> IsOnOwnerThread self tid then Inl CheckFailed
           else WeakHandleCore_Get tid (the (core h)) w))"

text \<open>
  \<^verbatim>\<open>Call\<close>, one overload per number of arguments:
  \<^verbatim>\<open>CHECK(IsInitialized()); core_->Call(from_here, fn, ...);\<close>
\<close>

definition WeakHandle_Call0 ::
  "thread_id \<Rightarrow> WeakHandle \<Rightarrow> 'm \<Rightarrow> ('m, 'a) World \<Rightarrow> fatal + ('m, 'a) World" where
  "WeakHandle_Call0 tid h fn w =
     (if \<not> IsInitialized h then Inl CheckFailed
      else WeakHandleCore_Call0 tid (the (core h)) fn w)"

definition WeakHandle_Call1 ::
  "thread_id \<Rightarrow> WeakHandle \<Rightarrow> 'm \<Rightarrow> 'a \<Rightarrow> ('m, 'a) World \<Rightarrow> fatal + ('m, 'a) World" where
  "WeakHandle_Call1 tid h fn a1 w =
     (if \<not> IsInitialized h then Inl CheckFailed
      else WeakHandleCore_Call1 tid (the (core h)) fn a1 w)"

definition WeakHandle_Call2 ::
  "thread_id \<Rightarrow> WeakHandle \<Rightarrow> 'm \<Rightarrow> 'a \<Rightarrow> 'a \<Rightarrow> ('m, 'a) World \<Rightarrow> fatal + ('m, 'a) World" where
  "WeakHandle_Call2 tid h fn a1 a2 w =
     (if \<not> IsInitialized h then Inl CheckFailed
      else WeakHandleCore_Call2 tid (the (core h)) fn a1 a2 w)"

definition WeakHandle_Call3 ::
  "thread_id \<Rightarrow> WeakHandle \<Rightarrow> 'm \<Rightarrow> 'a \<Rightarrow> 'a \<Rightarrow> 'a \<Rightarrow> ('m, 'a) World \<Rightarrow> fatal + ('m, 'a) World" where
  "WeakHandle_Call3 tid h fn a1 a2 a3 w =
     (if \<not> IsInitialized h then Inl CheckFailed
      else WeakHandleCore_Call3 tid (the (core h)) fn a1 a2 a3 w)"

definition WeakHandle_Call4 ::
  "thread_id \<Rightarrow> WeakHandle \<Rightarrow> 'm \<Rightarrow> 'a \<Rightarrow> 'a \<Rightarrow> 'a \<Rightarrow> 'a \<Rightarrow> ('m, 'a) World
     \<Rightarrow> fatal + ('m, 'a) World" where
  "WeakHandle_Call4 tid h fn a1 a2 a3 a4 w =
     (if \<not> IsInitialized h then Inl CheckFailed
      else WeakHandleCore_Call4 tid (the (core h)) fn a1 a2 a3 a4 w)"

text \<open>\<^verbatim>\<open>MakeWeakHandle\<close>: \<^verbatim>\<open>return WeakHandle<T>(ptr);\<close>\<close>

definition MakeWeakHandle ::
  "thread_id \<Rightarrow> WeakPtr \<Rightarrow> ('m, 'a) World \<Rightarrow> WeakHandle \<times> ('m, 'a) World" where
  "MakeWeakHandle tid p w = WeakHandle_ctor tid p w"

section \<open>The call surface and the executions of the system\<close>

text \<open>
  The overloads of \<^verbatim>\<open>Call\<close> as one type: a member pointer and the arguments that
  the overload takes. \<open>WeakHandle_Call\<close> and \<open>WeakHandleCore_Call\<close> select the
  overload, as the compiler does from the number of arguments.
\<close>

datatype ('m, 'a) CallOverload =
    Call0 'm
  | Call1 'm 'a
  | Call2 'm 'a 'a
  | Call3 'm 'a 'a 'a
  | Call4 'm 'a 'a 'a 'a

fun overload_member :: "('m, 'a) CallOverload \<Rightarrow> 'm" where
  "overload_member (Call0 fn) = fn"
| "overload_member (Call1 fn a1) = fn"
| "overload_member (Call2 fn a1 a2) = fn"
| "overload_member (Call3 fn a1 a2 a3) = fn"
| "overload_member (Call4 fn a1 a2 a3 a4) = fn"

fun overload_args :: "('m, 'a) CallOverload \<Rightarrow> 'a list" where
  "overload_args (Call0 fn) = []"
| "overload_args (Call1 fn a1) = [a1]"
| "overload_args (Call2 fn a1 a2) = [a1, a2]"
| "overload_args (Call3 fn a1 a2 a3) = [a1, a2, a3]"
| "overload_args (Call4 fn a1 a2 a3 a4) = [a1, a2, a3, a4]"

fun bound_closure :: "core_ref \<Rightarrow> ('m, 'a) CallOverload \<Rightarrow> ('m, 'a) Closure" where
  "bound_closure c (Call0 fn) = BindDoCall0 c fn"
| "bound_closure c (Call1 fn a1) = BindDoCall1 c fn a1"
| "bound_closure c (Call2 fn a1 a2) = BindDoCall2 c fn a1 a2"
| "bound_closure c (Call3 fn a1 a2 a3) = BindDoCall3 c fn a1 a2 a3"
| "bound_closure c (Call4 fn a1 a2 a3 a4) = BindDoCall4 c fn a1 a2 a3 a4"

fun WeakHandleCore_Call ::
  "thread_id \<Rightarrow> core_ref \<Rightarrow> ('m, 'a) CallOverload \<Rightarrow> ('m, 'a) World
     \<Rightarrow> fatal + ('m, 'a) World" where
  "WeakHandleCore_Call tid c (Call0 fn) w = WeakHandleCore_Call0 tid c fn w"
| "WeakHandleCore_Call tid c (Call1 fn a1) w = WeakHandleCore_Call1 tid c fn a1 w"
| "WeakHandleCore_Call tid c (Call2 fn a1 a2) w = WeakHandleCore_Call2 tid c fn a1 a2 w"
| "WeakHandleCore_Call tid c (Call3 fn a1 a2 a3) w = WeakHandleCore_Call3 tid c fn a1 a2 a3 w"
| "WeakHandleCore_Call tid c (Call4 fn a1 a2 a3 a4) w =
     WeakHandleCore_Call4 tid c fn a1 a2 a3 a4 w"

fun WeakHandle_Call ::
  "thread_id \<Rightarrow> WeakHandle \<Rightarrow> ('m, 'a) CallOverload \<Rightarrow> ('m, 'a) World
     \<Rightarrow> fatal + ('m, 'a) World" where
  "WeakHandle_Call tid h (Call0 fn) w = WeakHandle_Call0 tid h fn w"
| "WeakHandle_Call tid h (Call1 fn a1) w = WeakHandle_Call1 tid h fn a1 w"
| "WeakHandle_Call tid h (Call2 fn a1 a2) w = WeakHandle_Call2 tid h fn a1 a2 w"
| "WeakHandle_Call tid h (Call3 fn a1 a2 a3) w = WeakHandle_Call3 tid h fn a1 a2 a3 w"
| "WeakHandle_Call tid h (Call4 fn a1 a2 a3 a4) w = WeakHandle_Call4 tid h fn a1 a2 a3 a4 w"




definition initial_world :: "(target_id \<Rightarrow> bool) \<Rightarrow> ('m, 'a) World" where
  "initial_world live =
     \<lparr>cores = Map.empty, next_core = 0, weak_ptrs = Map.empty, next_ptr = 0,
      alive = live, queues = (\<lambda>t. []), accesses = [], invoked = []\<rparr>"



text \<open>
  The operations that can be applied to a handle value that exists: the members that
  the class declares, the copy constructor, which takes the handle as its source, and the
  copy assignment \<^verbatim>\<open>h = other\<close>, which takes it as its destination.
  \<open>handle_after\<close> is the handle once the operation has returned. The members other
  than \<^verbatim>\<open>Reset\<close> are declared \<^verbatim>\<open>const\<close> and the copy constructor takes
  the handle by \<^verbatim>\<open>const\<close> reference; \<^verbatim>\<open>Reset\<close> and the assignment
  write \<^verbatim>\<open>core_\<close>. Destruction is not among the operations: no handle is left
  after it. \<open>assigned\<close> is the handle that an assignment assigns.
\<close>

datatype ('m, 'a) HandleOp =
    OpIsInitialized
  | OpReset
  | OpGet
  | OpCall "('m, 'a) CallOverload"
  | OpCopyFrom
  | OpAssign WeakHandle

fun handle_after ::
  "thread_id \<Rightarrow> ('m, 'a) HandleOp \<Rightarrow> WeakHandle \<Rightarrow> ('m, 'a) World
     \<Rightarrow> fatal + (WeakHandle \<times> ('m, 'a) World)" where
  "handle_after tid OpIsInitialized h w = Inr (h, w)"
| "handle_after tid OpReset h w = WeakHandle_Reset tid h w"
| "handle_after tid OpGet h w = andThen (WeakHandle_Get tid h w) (\<lambda>(p, w1). Inr (h, w1))"
| "handle_after tid (OpCall ov) h w = andThen (WeakHandle_Call tid h ov w) (\<lambda>w1. Inr (h, w1))"
| "handle_after tid OpCopyFrom h w = andThen (WeakHandle_copy h w) (\<lambda>(h1, w1). Inr (h, w1))"
| "handle_after tid (OpAssign other) h w = WeakHandle_assign tid h other w"

fun assigned :: "('m, 'a) HandleOp \<Rightarrow> WeakHandle option" where
  "assigned (OpAssign other) = Some other"
| "assigned OpIsInitialized = None"
| "assigned OpReset = None"
| "assigned OpGet = None"
| "assigned (OpCall ov) = None"
| "assigned OpCopyFrom = None"

text \<open>
  The world after a closure has been dispatched on the owner thread of its core, whose
  cell at \<open>a\<close> holds \<open>p\<close>: one read of the cell when \<open>p\<close> resolves to nothing,
  two reads and the call of the member when it resolves to a target.
\<close>

definition dispatched ::
  "thread_id \<Rightarrow> ptr_addr \<Rightarrow> WeakPtr \<Rightarrow> ('m, 'a) Closure \<Rightarrow> ('m, 'a) World \<Rightarrow> ('m, 'a) World" where
  "dispatched tid a p fn w =
     (case WeakPtr_get (alive w) p of
        None \<Rightarrow> w\<lparr>accesses := accesses w @ [Access Read tid a]\<rparr>
      | Some obj \<Rightarrow>
          w\<lparr>accesses := accesses w @ [Access Read tid a, Access Read tid a],
            invoked := invoked w @ [Invoked tid obj (closure_member fn) (closure_args fn)]\<rparr>)"




text \<open>
  A world to evaluate on: thread 1 has made a handle from a weak pointer to target 7.
  The handle holds core 0, whose weak-pointer cell is at address 0.
\<close>

definition example_world :: "(string, nat) World" where
  "example_world = snd (MakeWeakHandle 1 (WeakPtr (Some 7)) (initial_world (\<lambda>t. True)))"

definition example_handle :: WeakHandle where
  "example_handle = fst (MakeWeakHandle 1 (WeakPtr (Some 7))
     (initial_world (\<lambda>t. True) :: (string, nat) World))"

definition example_core :: WeakHandleCore where
  "example_core = \<lparr>message_loop_proxy = 1, ptr = 0, ref_count = 1\<rparr>"

text \<open>
  The example world after thread 2 has called \<^verbatim>\<open>OnIOEvent(5)\<close> through the
  handle: the call waits in the queue of thread 1 and holds a second reference to core
  0.
\<close>

definition example_busy_world :: "(string, nat) World" where
  "example_busy_world =
     example_world\<lparr>cores := [0 \<mapsto> example_core\<lparr>ref_count := 2\<rparr>],
       queues := (\<lambda>t. [])(1 := [RunClosure (BindDoCall1 0 ''OnIOEvent'' 5)])\<rparr>"


section \<open>Basic facts\<close>

lemma andThen_simps:
  "andThen (Inl e) f = Inl e"
  "andThen (Inr x) f = f x"
  by (simp_all add: andThen_def)

lemma andThen_Inr_iff:
  "andThen r f = Inr y \<longleftrightarrow> (\<exists>x. r = Inr x \<and> f x = Inr y)"
  by (cases r) (simp_all add: andThen_def)

lemmas owner_defs = IsOnOwnerThread_def BelongsToCurrentThread_def

lemmas make_defs = MakeWeakHandle_def WeakHandle_ctor_def WeakHandleCore_ctor_def
  new_WeakPtr_def AddRef_def WeakHandleCoreBase_ctor_def

lemma example_world_eq:
  "example_world =
     \<lparr>cores = [0 \<mapsto> example_core], next_core = 1,
      weak_ptrs = [0 \<mapsto> WeakPtr (Some 7)], next_ptr = 1, alive = (\<lambda>t. True),
      queues = (\<lambda>t. []), accesses = [Access Construct 1 0], invoked = []\<rparr>"
  by (simp add: example_world_def example_core_def make_defs initial_world_def)

lemma example_handle_eq: "example_handle = \<lparr>core = Some 0\<rparr>"
  by (simp add: example_handle_def make_defs initial_world_def)

lemma example_core_simps:
  "message_loop_proxy example_core = 1" "ptr example_core = 0" "ref_count example_core = 1"
  by (simp_all add: example_core_def)

lemma ptr_get_dead:
  "weak_ptrs w a = Some p \<Longrightarrow> WeakPtr_get (alive w) p = None \<Longrightarrow>
   ptr_get tid a w = Inr (None, w\<lparr>accesses := accesses w @ [Access Read tid a]\<rparr>)"
  by (simp add: ptr_get_def read_WeakPtr_def andThen_simps)

lemma ptr_get_live:
  "weak_ptrs w a = Some p \<Longrightarrow> WeakPtr_get (alive w) p = Some obj \<Longrightarrow>
   ptr_get tid a w = Inr (Some obj, w\<lparr>accesses := accesses w @ [Access Read tid a]\<rparr>)"
  by (simp add: ptr_get_def read_WeakPtr_def andThen_simps)

lemma Release_not_CheckFailed: "Release tid c w \<noteq> Inl CheckFailed"
  by (simp add: Release_def WeakHandleCore_dtor_def DeleteOnOwnerThread_def delete_WeakPtr_def
      split: option.splits)

lemma Release_invoked: "Release tid c w = Inr w' \<Longrightarrow> invoked w' = invoked w"
  by (auto simp add: Release_def WeakHandleCore_dtor_def DeleteOnOwnerThread_def
      delete_WeakPtr_def DeleteSoon_def enqueue_def
      split: option.splits if_splits)

lemma Release_on_owner:
  assumes "cores w c = Some self" "IsOnOwnerThread self tid" "0 < ref_count self"
    "weak_ptrs w (ptr self) = Some p"
  shows "\<exists>w'. Release tid c w = Inr w' \<and> invoked w' = invoked w \<and> queues w' = queues w"
  using assms
  by (simp add: Release_def WeakHandleCore_dtor_def DeleteOnOwnerThread_def delete_WeakPtr_def)

lemma Closure_Run_dead:
  assumes "cores w (closure_core fn) = Some self" "IsOnOwnerThread self tid"
    "weak_ptrs w (ptr self) = Some p" "WeakPtr_get (alive w) p = None"
  shows "Closure_Run tid fn w = Inr (w\<lparr>accesses := accesses w @ [Access Read tid (ptr self)]\<rparr>)"
  using assms
  by (cases fn)
    (simp_all add: DoCall0_def DoCall1_def DoCall2_def DoCall3_def DoCall4_def
      ptr_get_dead andThen_simps)

section \<open>A call whose target is gone\<close>

text \<open>
  Claim C1. When \<^verbatim>\<open>DoCall0\<close> to \<^verbatim>\<open>DoCall4\<close>, the dispatch of a task that
  \<open>Call\<close> bound, run on the owner thread of the core and the weak pointer of the core
  resolves to null, the dispatch returns normally and the only trace it leaves is the
  read of the weak-pointer cell on that thread: no member of the target is invoked,
  nothing is posted, no core and no cell changes. The whole task of any closure bound to
  the core, the destruction of the closure included, returns normally with the same
  calls recorded and the same queues.
\<close>

theorem dead_target_call_is_dropped:
  assumes "cores (w :: ('m, 'a) World) c = Some self" "IsOnOwnerThread self tid"
    "weak_ptrs w (ptr self) = Some p" "WeakPtr_get (alive w) p = None" "0 < ref_count self"
  shows
   "DoCall0 tid c fn w = Inr (w\<lparr>accesses := accesses w @ [Access Read tid (ptr self)]\<rparr>) \<and>
    DoCall1 tid c fn a1 w = Inr (w\<lparr>accesses := accesses w @ [Access Read tid (ptr self)]\<rparr>) \<and>
    DoCall2 tid c fn a1 a2 w =
      Inr (w\<lparr>accesses := accesses w @ [Access Read tid (ptr self)]\<rparr>) \<and>
    DoCall3 tid c fn a1 a2 a3 w =
      Inr (w\<lparr>accesses := accesses w @ [Access Read tid (ptr self)]\<rparr>) \<and>
    DoCall4 tid c fn a1 a2 a3 a4 w =
      Inr (w\<lparr>accesses := accesses w @ [Access Read tid (ptr self)]\<rparr>) \<and>
    (closure_core cl = c \<longrightarrow>
       Closure_Run tid cl w = Inr (w\<lparr>accesses := accesses w @ [Access Read tid (ptr self)]\<rparr>) \<and>
       (\<exists>w'. RunTask tid (RunClosure cl) w = Inr w' \<and> invoked w' = invoked w \<and>
          queues w' = queues w))"
proof -
  let ?w1 = "w\<lparr>accesses := accesses w @ [Access Read tid (ptr self)]\<rparr>"
  have run: "Closure_Run tid k w = Inr ?w1" if "closure_core k = c" for k :: "('m, 'a) Closure"
    using that assms(1-4) by (intro Closure_Run_dead[where p = p]) simp_all
  have task: "\<exists>w'. RunTask tid (RunClosure cl) w = Inr w' \<and> invoked w' = invoked w \<and>
      queues w' = queues w" if cl: "closure_core cl = c"
  proof -
    have "\<exists>w'. Release tid c ?w1 = Inr w' \<and> invoked w' = invoked ?w1 \<and>
        queues w' = queues ?w1"
      by (rule Release_on_owner[where self = self and p = p]) (use assms in simp_all)
    then show ?thesis
      using run[OF cl] cl by (simp add: RunTask_def Closure_dtor_def andThen_simps)
  qed
  show ?thesis
    using run[of "BindDoCall0 c fn"] run[of "BindDoCall1 c fn a1"]
      run[of "BindDoCall2 c fn a1 a2"] run[of "BindDoCall3 c fn a1 a2 a3"]
      run[of "BindDoCall4 c fn a1 a2 a3 a4"] run[of cl] task
    by simp
qed

theorem dead_target_call_is_dropped_witness:
  "cores (example_world\<lparr>alive := \<lambda>t. False\<rparr>) 0 = Some example_core \<and>
   IsOnOwnerThread example_core 1 \<and>
   weak_ptrs (example_world\<lparr>alive := \<lambda>t. False\<rparr>) (ptr example_core) = Some (WeakPtr (Some 7)) \<and>
   WeakPtr_get (alive (example_world\<lparr>alive := \<lambda>t. False\<rparr>)) (WeakPtr (Some 7)) = None \<and>
   0 < ref_count example_core \<and>
   DoCall0 1 0 ''OnIOStart'' (example_world\<lparr>alive := \<lambda>t. False\<rparr>) =
     Inr (example_world\<lparr>alive := \<lambda>t. False,
            accesses := [Access Construct 1 0, Access Read 1 0]\<rparr>) \<and>
   DoCall4 1 0 ''OnIOEvent'' 3 4 5 6 (example_world\<lparr>alive := \<lambda>t. False\<rparr>) =
     Inr (example_world\<lparr>alive := \<lambda>t. False,
            accesses := [Access Construct 1 0, Access Read 1 0]\<rparr>) \<and>
   (\<exists>w'. RunTask 1 (RunClosure (BindDoCall2 0 ''OnIOEvent'' 3 4))
            (example_world\<lparr>alive := \<lambda>t. False\<rparr>) = Inr w' \<and>
      invoked w' = [] \<and> queues w' = (\<lambda>t. []))"
  using dead_target_call_is_dropped[where w = "example_world\<lparr>alive := \<lambda>t. False\<rparr>"
      and c = 0 and self = example_core and tid = 1 and p = "WeakPtr (Some 7)"
      and cl = "BindDoCall2 0 ''OnIOEvent'' 3 4" and fn = "''OnIOStart''"
      and ?a1.0 = 3 and ?a2.0 = 4 and ?a3.0 = 5 and ?a4.0 = 6]
    dead_target_call_is_dropped[where w = "example_world\<lparr>alive := \<lambda>t. False\<rparr>"
      and c = 0 and self = example_core and tid = 1 and p = "WeakPtr (Some 7)"
      and cl = "BindDoCall2 0 ''OnIOEvent'' 3 4" and fn = "''OnIOEvent''"
      and ?a1.0 = 3 and ?a2.0 = 4 and ?a3.0 = 5 and ?a4.0 = 6]
  by (simp add: example_world_eq example_core_simps owner_defs WeakPtr_get_def)

section \<open>Contract violations\<close>

lemma WeakHandle_Call_uninitialized:
  "\<not> IsInitialized h \<Longrightarrow> WeakHandle_Call tid h ov w = Inl CheckFailed"
  by (cases ov)
    (simp_all add: WeakHandle_Call0_def WeakHandle_Call1_def WeakHandle_Call2_def
      WeakHandle_Call3_def WeakHandle_Call4_def)

text \<open>
  Claim C4. A contract violation halts at a \<^verbatim>\<open>CHECK\<close> and returns nothing:
  \<open>Get\<close> on an uninitialized handle, \<open>Get\<close> on an initialized handle from a thread
  that is not the owner thread of its core, and \<open>Call\<close> of every arity on an
  uninitialized handle all end in \<open>CheckFailed\<close>.
\<close>

theorem contract_violations_halt:
  "(\<not> IsInitialized h \<longrightarrow> WeakHandle_Get tid h w = Inl CheckFailed) \<and>
   (core h = Some c \<and> cores w c = Some self \<and> \<not> IsOnOwnerThread self tid \<longrightarrow>
      WeakHandle_Get tid h w = Inl CheckFailed) \<and>
   (\<not> IsInitialized h \<longrightarrow>
      WeakHandle_Call tid h ov w = Inl CheckFailed \<and>
      WeakHandle_Call0 tid h fn w = Inl CheckFailed \<and>
      WeakHandle_Call1 tid h fn a1 w = Inl CheckFailed \<and>
      WeakHandle_Call2 tid h fn a1 a2 w = Inl CheckFailed \<and>
      WeakHandle_Call3 tid h fn a1 a2 a3 w = Inl CheckFailed \<and>
      WeakHandle_Call4 tid h fn a1 a2 a3 a4 w = Inl CheckFailed)"
  by (simp add: WeakHandle_Get_def IsInitialized_def WeakHandle_Call_uninitialized
      WeakHandle_Call0_def WeakHandle_Call1_def WeakHandle_Call2_def
      WeakHandle_Call3_def WeakHandle_Call4_def)

theorem contract_violations_halt_witness:
  "\<not> IsInitialized WeakHandle_default \<and>
   WeakHandle_Get 1 WeakHandle_default example_world = Inl CheckFailed \<and>
   core example_handle = Some 0 \<and>
   cores example_world 0 = Some example_core \<and>
   \<not> IsOnOwnerThread example_core 2 \<and>
   WeakHandle_Get 2 example_handle example_world = Inl CheckFailed \<and>
   WeakHandle_Call 2 WeakHandle_default (Call1 ''OnIOEvent'' 5) example_world = Inl CheckFailed \<and>
   WeakHandle_Call4 1 WeakHandle_default ''OnIOEvent'' 5 6 7 8 example_world = Inl CheckFailed"
  using contract_violations_halt[of WeakHandle_default 1 example_world 0
      example_core "Call1 ''OnIOEvent'' 5" "''OnIOEvent''" 5 6 7 8]
    contract_violations_halt[of example_handle 2 example_world 0
      example_core "Call1 ''OnIOEvent'' 5" "''OnIOEvent''" 5 6 7 8]
    contract_violations_halt[of WeakHandle_default 2 example_world 0
      example_core "Call1 ''OnIOEvent'' 5" "''OnIOEvent''" 5 6 7 8]
  by (simp add: example_world_eq example_handle_eq example_core_simps WeakHandle_default_def
      IsInitialized_def owner_defs)

section \<open>The factory\<close>

text \<open>
  Claim C8. For every weak pointer \<open>p\<close>, every thread and every world, the handle that
  \<open>MakeWeakHandle\<close> returns is initialized, and \<open>Get\<close> on it from the thread that
  made it returns \<open>p\<close> itself; the only effect of that \<open>Get\<close> is the read of the
  cell on that thread.
\<close>

theorem MakeWeakHandle_Get_roundtrip:
  "IsInitialized (fst (MakeWeakHandle tid p w)) \<and>
   WeakHandle_Get tid (fst (MakeWeakHandle tid p w)) (snd (MakeWeakHandle tid p w)) =
     Inr (p, (snd (MakeWeakHandle tid p w))
               \<lparr>accesses := accesses (snd (MakeWeakHandle tid p w)) @
                  [Access Read tid (next_ptr w)]\<rparr>)"
  by (simp add: make_defs IsInitialized_def WeakHandle_Get_def WeakHandleCore_Get_def
      owner_defs read_WeakPtr_def)

theorem MakeWeakHandle_Get_roundtrip_witness:
  "IsInitialized example_handle \<and>
   WeakHandle_Get 1 example_handle example_world =
     Inr (WeakPtr (Some 7),
          example_world\<lparr>accesses := [Access Construct 1 0, Access Read 1 0]\<rparr>)"
  using MakeWeakHandle_Get_roundtrip[of 1 "WeakPtr (Some 7)"
      "initial_world (\<lambda>t. True) :: (string, nat) World"]
  by (simp add: example_handle_def example_world_def initial_world_def make_defs)

section \<open>Confinement of the weak pointer to the owner thread\<close>












lemma Closure_Run_unfold:
  "Closure_Run tid fn w =
     (case cores w (closure_core fn) of
        None \<Rightarrow> Inl InvalidMemoryAccess
      | Some self \<Rightarrow>
          (if \<not> IsOnOwnerThread self tid then Inl CheckFailed
           else andThen (ptr_get tid (ptr self) w) (\<lambda>(r, w1).
             if r = None then Inr w1
             else andThen (ptr_get tid (ptr self) w1) (\<lambda>(r2, w2).
               case r2 of
                 None \<Rightarrow> Inl InvalidMemoryAccess
               | Some obj \<Rightarrow>
                   Inr (call_member tid obj (closure_member fn) (closure_args fn) w2)))))"
  by (cases fn)
    (simp_all add: DoCall0_def DoCall1_def DoCall2_def DoCall3_def DoCall4_def
      cong: if_cong option.case_cong)





















lemmas op_defs = WeakHandle_Get_def WeakHandleCore_Get_def IsInitialized_def owner_defs
  read_WeakPtr_def WeakHandle_Call1_def WeakHandleCore_Call1_def post_bound_def
  PostOnOwnerThread_def PostTask_def Bind_def AddRef_def enqueue_def Closure_dtor_def
  Release_def RunPendingTask_def RunTask_def DoCall1_def ptr_get_def WeakPtr_get_def
  call_member_def WeakHandle_dtor_def WeakHandleCore_dtor_def DeleteOnOwnerThread_def
  DeleteSoon_def delete_WeakPtr_def andThen_simps




section \<open>Destruction of a core\<close>

text \<open>
  Claim C3. When the last reference to a core is released, its destructor runs on the
  releasing thread. On the owner thread the weak-pointer cell is deleted at once, by
  that thread. On any other thread the cell is neither deleted nor touched: a deferred
  deletion of it goes to the back of the owner thread's queue, and when the owner
  thread's loop runs that task the cell is deleted by the owner thread.
\<close>

theorem core_destruction_by_thread:
  assumes "cores w c = Some self" "ref_count self = 1"
  shows
   "Release tid c w = WeakHandleCore_dtor tid self (w\<lparr>cores := (cores w)(c := None)\<rparr>) \<and>
    (IsOnOwnerThread self tid \<and> weak_ptrs w (ptr self) = Some p \<longrightarrow>
       Release tid c w =
         Inr (w\<lparr>cores := (cores w)(c := None),
                weak_ptrs := (weak_ptrs w)(ptr self := None),
                accesses := accesses w @ [Access Destroy tid (ptr self)]\<rparr>)) \<and>
    (\<not> IsOnOwnerThread self tid \<longrightarrow>
       Release tid c w =
         Inr (w\<lparr>cores := (cores w)(c := None),
                queues := (queues w)(message_loop_proxy self :=
                  queues w (message_loop_proxy self) @ [DeleteSoonTask (ptr self)])\<rparr>)) \<and>
    (\<forall>w2. weak_ptrs w2 (ptr self) = Some p \<longrightarrow>
       RunTask (message_loop_proxy self) (DeleteSoonTask (ptr self)) (w2 :: ('m, 'a) World) =
         Inr (w2\<lparr>weak_ptrs := (weak_ptrs w2)(ptr self := None),
                 accesses := accesses w2 @
                   [Access Destroy (message_loop_proxy self) (ptr self)]\<rparr>))"
  using assms
  by (simp add: Release_def WeakHandleCore_dtor_def DeleteOnOwnerThread_def delete_WeakPtr_def
      DeleteSoon_def enqueue_def RunTask_def)

theorem core_destruction_by_thread_witness:
  "cores example_world 0 = Some example_core \<and> ref_count example_core = 1 \<and>
   IsOnOwnerThread example_core 1 \<and>
   weak_ptrs example_world (ptr example_core) = Some (WeakPtr (Some 7)) \<and>
   Release 1 0 example_world =
     Inr (example_world\<lparr>cores := Map.empty, weak_ptrs := Map.empty,
            accesses := [Access Construct 1 0, Access Destroy 1 0]\<rparr>) \<and>
   \<not> IsOnOwnerThread example_core 2 \<and>
   Release 2 0 example_world =
     Inr (example_world\<lparr>cores := Map.empty, queues := (\<lambda>t. [])(1 := [DeleteSoonTask 0])\<rparr>) \<and>
   RunTask 1 (DeleteSoonTask 0)
       (example_world\<lparr>cores := Map.empty, queues := (\<lambda>t. [])(1 := [DeleteSoonTask 0])\<rparr>) =
     Inr (example_world\<lparr>cores := Map.empty, queues := (\<lambda>t. [])(1 := [DeleteSoonTask 0]),
            weak_ptrs := Map.empty,
            accesses := [Access Construct 1 0, Access Destroy 1 0]\<rparr>)"
proof -
  let ?w2 = "example_world\<lparr>cores := Map.empty, queues := (\<lambda>t. [])(1 := [DeleteSoonTask 0])\<rparr>"
  have hyps: "cores example_world 0 = Some example_core" "ref_count example_core = 1"
    by (simp_all add: example_world_eq example_core_simps)
  have own: "IsOnOwnerThread example_core 1" "\<not> IsOnOwnerThread example_core 2"
    by (simp_all add: owner_defs example_core_simps)
  have cell: "weak_ptrs example_world (ptr example_core) = Some (WeakPtr (Some 7))"
    "weak_ptrs ?w2 (ptr example_core) = Some (WeakPtr (Some 7))"
    by (simp_all add: example_world_eq example_core_simps)
  note on_owner = core_destruction_by_thread[OF hyps, of 1 "WeakPtr (Some 7)"]
  note foreign = core_destruction_by_thread[OF hyps, of 2 "WeakPtr (Some 7)"]
  have r1: "Release 1 0 example_world =
      Inr (example_world\<lparr>cores := (cores example_world)(0 := None),
             weak_ptrs := (weak_ptrs example_world)(ptr example_core := None),
             accesses := accesses example_world @ [Access Destroy 1 (ptr example_core)]\<rparr>)"
    using on_owner own(1) cell(1) by blast
  have r2: "Release 2 0 example_world =
      Inr (example_world\<lparr>cores := (cores example_world)(0 := None),
             queues := (queues example_world)(message_loop_proxy example_core :=
               queues example_world (message_loop_proxy example_core) @
                 [DeleteSoonTask (ptr example_core)])\<rparr>)"
    using foreign own(2) by blast
  have r3: "RunTask (message_loop_proxy example_core) (DeleteSoonTask (ptr example_core)) ?w2 =
      Inr (?w2\<lparr>weak_ptrs := (weak_ptrs ?w2)(ptr example_core := None),
             accesses := accesses ?w2 @
               [Access Destroy (message_loop_proxy example_core) (ptr example_core)]\<rparr>)"
    using foreign cell(2) by blast
  have "Release 1 0 example_world =
      Inr (example_world\<lparr>cores := Map.empty, weak_ptrs := Map.empty,
            accesses := [Access Construct 1 0, Access Destroy 1 0]\<rparr>)"
    unfolding r1 by (simp add: example_world_eq example_core_simps)
  moreover have "Release 2 0 example_world = Inr ?w2"
    unfolding r2 by (simp add: example_world_eq example_core_simps)
  moreover have "RunTask 1 (DeleteSoonTask 0) ?w2 =
     Inr (example_world\<lparr>cores := Map.empty, queues := (\<lambda>t. [])(1 := [DeleteSoonTask 0]),
            weak_ptrs := Map.empty,
            accesses := [Access Construct 1 0, Access Destroy 1 0]\<rparr>)"
    using r3 by (simp add: example_world_eq example_core_simps)
  ultimately show ?thesis
    using hyps own cell(1) by simp
qed

section \<open>The call surface\<close>

lemma overload_arity_le: "length (overload_args ov) \<le> 4"
  by (cases ov) simp_all

lemma overload_arity_ex:
  assumes "n \<le> 4"
  shows "\<exists>ov :: ('m, 'a) CallOverload. length (overload_args ov) = n"
proof -
  from assms consider "n = 0" | "n = 1" | "n = 2" | "n = 3" | "n = 4" by linarith
  then show ?thesis
  proof cases
    case 1
    then show ?thesis by (intro exI[of _ "Call0 undefined"]) simp
  next
    case 2
    then show ?thesis by (intro exI[of _ "Call1 undefined undefined"]) simp
  next
    case 3
    then show ?thesis by (intro exI[of _ "Call2 undefined undefined undefined"]) simp
  next
    case 4
    then show ?thesis
      by (intro exI[of _ "Call3 undefined undefined undefined undefined"]) simp
  next
    case 5
    then show ?thesis
      by (intro exI[of _ "Call4 undefined undefined undefined undefined undefined"]) simp
  qed
qed

lemma WeakHandle_Call_forwards:
  "core h = Some c \<Longrightarrow> WeakHandle_Call tid h ov w = WeakHandleCore_Call tid c ov w"
  by (cases ov)
    (simp_all add: WeakHandle_Call0_def WeakHandle_Call1_def WeakHandle_Call2_def
      WeakHandle_Call3_def WeakHandle_Call4_def IsInitialized_def)

lemma WeakHandleCore_Call_post_bound:
  "WeakHandleCore_Call tid c ov w = post_bound tid c (bound_closure c ov) w"
  by (cases ov)
    (simp_all add: WeakHandleCore_Call0_def WeakHandleCore_Call1_def WeakHandleCore_Call2_def
      WeakHandleCore_Call3_def WeakHandleCore_Call4_def)

lemma bound_closure_simps:
  "closure_core (bound_closure c ov) = c"
  "closure_member (bound_closure c ov) = overload_member ov"
  "closure_args (bound_closure c ov) = overload_args ov"
  by (cases ov, simp_all)+

text \<open>
  Claim C9. \<open>Call\<close> takes a member and zero to four arguments: an overload exists
  for a number of arguments exactly when that number is at most four. On every thread
  the overload of an initialized handle is the overload of its core with the same
  member and arguments, and what the core binds and posts carries that member and those
  arguments.
\<close>

theorem call_surface_zero_to_four:
  "((\<exists>ov :: ('m, 'a) CallOverload. length (overload_args ov) = n) \<longleftrightarrow> n \<le> 4) \<and>
   (core h = Some c \<longrightarrow>
      WeakHandle_Call tid h ov w = WeakHandleCore_Call tid c (ov :: ('m, 'a) CallOverload) w) \<and>
   WeakHandleCore_Call tid c ov w = post_bound tid c (bound_closure c ov) w \<and>
   closure_member (bound_closure c ov) = overload_member ov \<and>
   closure_args (bound_closure c ov) = overload_args ov"
  using overload_arity_le overload_arity_ex[of n]
  by (auto simp add: WeakHandle_Call_forwards WeakHandleCore_Call_post_bound
      bound_closure_simps)

theorem call_surface_zero_to_four_witness:
  "(\<exists>ov :: (string, nat) CallOverload. length (overload_args ov) = 4) \<and>
   \<not> (\<exists>ov :: (string, nat) CallOverload. length (overload_args ov) = 5) \<and>
   core example_handle = Some 0 \<and>
   WeakHandle_Call 2 example_handle (Call3 ''OnIOEvent'' 1 2 3) example_world =
     WeakHandleCore_Call3 2 0 ''OnIOEvent'' 1 2 3 example_world \<and>
   closure_args (bound_closure 0 (Call3 ''OnIOEvent'' (1::nat) 2 3)) = [1, 2, 3]"
  using call_surface_zero_to_four[of 4 example_handle 0 2 "Call3 ''OnIOEvent'' 1 2 3"
      example_world]
    call_surface_zero_to_four[where ?'m = string and ?'a = nat and n = 5]
  by (simp add: example_handle_eq WeakHandleCore_Call3_def)

section \<open>Reset\<close>

text \<open>
  Claim C10. \<open>Reset\<close> has no \<^verbatim>\<open>CHECK\<close> to fail. On an uninitialized handle it
  returns the same handle and the same world. On a handle that holds a reference to its
  core it returns an uninitialized handle, and a second \<open>Reset\<close>, from any thread,
  returns that handle and that world unchanged.
\<close>

theorem Reset_never_halts_idempotent:
  "WeakHandle_Reset tid h w \<noteq> Inl CheckFailed \<and>
   (\<not> IsInitialized h \<longrightarrow> WeakHandle_Reset tid h w = Inr (h, w)) \<and>
   (core h = Some c \<and> cores w c = Some self \<and> 0 < ref_count self \<and>
    weak_ptrs w (ptr self) = Some p \<longrightarrow>
      (\<exists>h' w'. WeakHandle_Reset tid h w = Inr (h', w') \<and> \<not> IsInitialized h' \<and>
         WeakHandle_Reset tid' h' w' = Inr (h', w')))"
proof (intro conjI impI)
  show "WeakHandle_Reset tid h w \<noteq> Inl CheckFailed"
    using Release_not_CheckFailed[of tid _ w]
    by (cases "core h") (auto simp add: WeakHandle_Reset_def andThen_def split: sum.splits)
  show "WeakHandle_Reset tid h w = Inr (h, w)" if "\<not> IsInitialized h"
    using that by (simp add: WeakHandle_Reset_def IsInitialized_def)
  show "\<exists>h' w'. WeakHandle_Reset tid h w = Inr (h', w') \<and> \<not> IsInitialized h' \<and>
         WeakHandle_Reset tid' h' w' = Inr (h', w')"
    if "core h = Some c \<and> cores w c = Some self \<and> 0 < ref_count self \<and>
        weak_ptrs w (ptr self) = Some p"
  proof -
    have "\<exists>w'. Release tid c w = Inr w'"
      using that
      by (simp add: Release_def WeakHandleCore_dtor_def DeleteOnOwnerThread_def
          delete_WeakPtr_def)
    then obtain w' where "Release tid c w = Inr w'" by blast
    then show ?thesis
      using that by (simp add: WeakHandle_Reset_def andThen_simps IsInitialized_def)
  qed
qed

theorem Reset_never_halts_idempotent_witness:
  "\<not> IsInitialized WeakHandle_default \<and>
   WeakHandle_Reset 2 WeakHandle_default example_world = Inr (WeakHandle_default, example_world) \<and>
   core example_handle = Some 0 \<and> cores example_world 0 = Some example_core \<and>
   0 < ref_count example_core \<and>
   weak_ptrs example_world (ptr example_core) = Some (WeakPtr (Some 7)) \<and>
   (\<exists>h' w'. WeakHandle_Reset 2 example_handle example_world = Inr (h', w') \<and>
      \<not> IsInitialized h' \<and> WeakHandle_Reset 3 h' w' = Inr (h', w'))"
  using Reset_never_halts_idempotent[of 2 WeakHandle_default example_world 0 example_core
      "WeakPtr (Some 7)" 3]
    Reset_never_halts_idempotent[of 2 example_handle example_world 0 example_core
      "WeakPtr (Some 7)" 3]
  by (simp add: example_world_eq example_handle_eq example_core_simps WeakHandle_default_def
      IsInitialized_def)

section \<open>Dispatch on the owner thread and from other threads\<close>

lemma Closure_Run_owner:
  assumes "cores w (closure_core fn) = Some self" "IsOnOwnerThread self tid"
    "weak_ptrs w (ptr self) = Some p"
  shows "Closure_Run tid fn w = Inr (dispatched tid (ptr self) p fn w)"
  using assms
  by (cases "WeakPtr_get (alive w) p")
    (simp_all add: Closure_Run_unfold ptr_get_def read_WeakPtr_def andThen_simps
      call_member_def dispatched_def)

lemma dispatched_fields:
  "cores (dispatched tid a p fn w) = cores w"
  "queues (dispatched tid a p fn w) = queues w"
  "weak_ptrs (dispatched tid a p fn w) = weak_ptrs w"
  "alive (dispatched tid a p fn w) = alive w"
  "next_ptr (dispatched tid a p fn w) = next_ptr w"
  "next_core (dispatched tid a p fn w) = next_core w"
  "invoked (dispatched tid a p fn w) = invoked w @
     (case WeakPtr_get (alive w) p of None \<Rightarrow> []
      | Some obj \<Rightarrow> [Invoked tid obj (closure_member fn) (closure_args fn)])"
  by (simp_all add: dispatched_def split: option.splits)

lemma post_bound_on_owner:
  assumes "cores w c = Some self" "IsOnOwnerThread self tid" "0 < ref_count self"
    "weak_ptrs w (ptr self) = Some p" "closure_core fn = c"
  shows "post_bound tid c fn w = Inr (dispatched tid (ptr self) p fn w)"
proof -
  let ?self1 = "self\<lparr>ref_count := Suc (ref_count self)\<rparr>"
  let ?w1 = "Bind fn w"
  have w1: "?w1 = w\<lparr>cores := (cores w)(c \<mapsto> ?self1)\<rparr>"
    using assms by (simp add: Bind_def AddRef_def)
  have run: "Closure_Run tid fn ?w1 = Inr (dispatched tid (ptr ?self1) p fn ?w1)"
    by (rule Closure_Run_owner) (use assms in \<open>simp_all add: w1 IsOnOwnerThread_def\<close>)
  let ?d1 = "dispatched tid (ptr self) p fn ?w1"
  have c1: "cores ?d1 c = Some ?self1"
    by (simp add: dispatched_fields w1)
  have same: "(cores w)(c \<mapsto> self) = cores w"
    using assms(1) by (rule map_upd_triv)
  have "Release tid c ?d1 = Inr (?d1\<lparr>cores := (cores ?d1)(c \<mapsto> self)\<rparr>)"
    using assms(3) by (simp add: Release_def c1)
  also have "?d1\<lparr>cores := (cores ?d1)(c \<mapsto> self)\<rparr> = dispatched tid (ptr self) p fn w"
    by (cases "WeakPtr_get (alive w) p") (simp_all add: dispatched_def w1 same)
  finally have rel: "Release tid c ?d1 = Inr (dispatched tid (ptr self) p fn w)" .
  show ?thesis
    using assms(1,2) run rel
    by (simp add: post_bound_def PostOnOwnerThread_def andThen_simps Closure_dtor_def assms(5))
qed

lemma post_bound_foreign:
  assumes "cores w c = Some self" "\<not> IsOnOwnerThread self tid" "closure_core fn = c"
  shows "post_bound tid c fn w =
    Inr (w\<lparr>cores := (cores w)(c \<mapsto> self\<lparr>ref_count := Suc (ref_count self)\<rparr>),
           queues := (queues w)(message_loop_proxy self :=
              queues w (message_loop_proxy self) @ [RunClosure fn])\<rparr>)"
  using assms
  by (simp add: post_bound_def PostOnOwnerThread_def andThen_simps Closure_dtor_def
      PostTask_def Bind_def AddRef_def enqueue_def Release_def)

text \<open>
  Claim C5. A \<open>Call\<close> of any arity on a bound handle, made on the owner thread of
  its core, is dispatched in place: it is the run of the bound closure on the calling
  thread, it returns with every queue as it was, and the member has been invoked by then
  if the target is alive. Made on any other thread it invokes nothing: it puts the closure
  with the member and the arguments at the back of the owner thread's queue, and the
  closure holds one more reference to the core.
\<close>

theorem owner_thread_call_is_synchronous:
  assumes "core h = Some c" "cores w c = Some self" "0 < ref_count self"
    "weak_ptrs w (ptr self) = Some p"
  shows
   "(IsOnOwnerThread self tid \<longrightarrow>
       WeakHandle_Call tid h ov w = Closure_Run tid (bound_closure c ov) w \<and>
       (\<exists>w'. WeakHandle_Call tid h ov w = Inr w' \<and> queues w' = queues w \<and>
          cores w' = cores w \<and>
          invoked w' = invoked w @
            (case WeakPtr_get (alive w) p of
               None \<Rightarrow> []
             | Some obj \<Rightarrow> [Invoked tid obj (overload_member ov) (overload_args ov)]))) \<and>
    (\<not> IsOnOwnerThread self tid \<longrightarrow>
       WeakHandle_Call tid h ov w =
         Inr (w\<lparr>cores := (cores w)(c \<mapsto> self\<lparr>ref_count := Suc (ref_count self)\<rparr>),
                queues := (queues w)(message_loop_proxy self :=
                  queues w (message_loop_proxy self) @ [RunClosure (bound_closure c ov)])\<rparr>))"
proof (intro conjI impI)
  have call: "WeakHandle_Call tid h ov w = post_bound tid c (bound_closure c ov) w"
    using assms(1) by (simp add: WeakHandle_Call_forwards WeakHandleCore_Call_post_bound)
  {
    assume own: "IsOnOwnerThread self tid"
    have pb: "post_bound tid c (bound_closure c ov) w =
        Inr (dispatched tid (ptr self) p (bound_closure c ov) w)"
      using assms(2) own assms(3,4) by (rule post_bound_on_owner) (simp add: bound_closure_simps)
    show "WeakHandle_Call tid h ov w = Closure_Run tid (bound_closure c ov) w"
      using Closure_Run_owner[of w "bound_closure c ov" self tid p] assms own
      by (simp add: call pb bound_closure_simps)
    show "\<exists>w'. WeakHandle_Call tid h ov w = Inr w' \<and> queues w' = queues w \<and>
          cores w' = cores w \<and>
          invoked w' = invoked w @
            (case WeakPtr_get (alive w) p of
               None \<Rightarrow> []
             | Some obj \<Rightarrow> [Invoked tid obj (overload_member ov) (overload_args ov)])"
      by (simp add: call pb dispatched_fields bound_closure_simps cong: option.case_cong)
  }
  {
    assume "\<not> IsOnOwnerThread self tid"
    with assms(2) show "WeakHandle_Call tid h ov w =
         Inr (w\<lparr>cores := (cores w)(c \<mapsto> self\<lparr>ref_count := Suc (ref_count self)\<rparr>),
                queues := (queues w)(message_loop_proxy self :=
                  queues w (message_loop_proxy self) @ [RunClosure (bound_closure c ov)])\<rparr>)"
      unfolding call by (rule post_bound_foreign) (simp add: bound_closure_simps)
  }
qed

theorem owner_thread_call_is_synchronous_witness:
  "core example_handle = Some 0 \<and> cores example_world 0 = Some example_core \<and>
   0 < ref_count example_core \<and>
   weak_ptrs example_world (ptr example_core) = Some (WeakPtr (Some 7)) \<and>
   IsOnOwnerThread example_core 1 \<and>
   (\<exists>w'. WeakHandle_Call 1 example_handle (Call2 ''OnIOEvent'' 3 4) example_world = Inr w' \<and>
      queues w' = (\<lambda>t. []) \<and> invoked w' = [Invoked 1 7 ''OnIOEvent'' [3, 4]]) \<and>
   \<not> IsOnOwnerThread example_core 2 \<and>
   WeakHandle_Call 2 example_handle (Call2 ''OnIOEvent'' 3 4) example_world =
     Inr (example_world\<lparr>cores := [0 \<mapsto> example_core\<lparr>ref_count := 2\<rparr>],
            queues := (\<lambda>t. [])(1 := [RunClosure (BindDoCall2 0 ''OnIOEvent'' 3 4)])\<rparr>)"
proof -
  have hyps: "core example_handle = Some 0" "cores example_world 0 = Some example_core"
    "0 < ref_count example_core"
    "weak_ptrs example_world (ptr example_core) = Some (WeakPtr (Some 7))"
    by (simp_all add: example_world_eq example_handle_eq example_core_simps)
  have own: "IsOnOwnerThread example_core 1" "\<not> IsOnOwnerThread example_core 2"
    by (simp_all add: owner_defs example_core_simps)
  note t1 = owner_thread_call_is_synchronous[OF hyps, of 1 "Call2 ''OnIOEvent'' 3 4"]
  note t2 = owner_thread_call_is_synchronous[OF hyps, of 2 "Call2 ''OnIOEvent'' 3 4"]
  from t1[THEN conjunct1, rule_format, OF own(1), THEN conjunct2] obtain w' where
    w': "WeakHandle_Call 1 example_handle (Call2 ''OnIOEvent'' 3 4) example_world = Inr w'"
      "queues w' = queues example_world"
      "cores w' = cores example_world"
      "invoked w' = invoked example_world @
            (case WeakPtr_get (alive example_world) (WeakPtr (Some 7)) of
               None \<Rightarrow> []
             | Some obj \<Rightarrow> [Invoked 1 obj (overload_member (Call2 ''OnIOEvent'' (3::nat) 4))
                 (overload_args (Call2 ''OnIOEvent'' (3::nat) 4))])"
    by (elim exE conjE)
  have "queues w' = (\<lambda>t. [])" "invoked w' = [Invoked 1 7 ''OnIOEvent'' [3, 4]]"
    unfolding w'(2,4) by (simp_all add: example_world_eq WeakPtr_get_def)
  with w'(1) have a: "\<exists>w'. WeakHandle_Call 1 example_handle (Call2 ''OnIOEvent'' 3 4) example_world = Inr w' \<and>
      queues w' = (\<lambda>t. []) \<and> invoked w' = [Invoked 1 7 ''OnIOEvent'' [3, 4]]"
    by blast
  from t2[THEN conjunct2, rule_format, OF own(2)] have r2: "WeakHandle_Call 2 example_handle (Call2 ''OnIOEvent'' 3 4) example_world =
         Inr (example_world\<lparr>cores := (cores example_world)(0 \<mapsto> example_core\<lparr>ref_count := Suc (ref_count example_core)\<rparr>),
                queues := (queues example_world)(message_loop_proxy example_core :=
                  queues example_world (message_loop_proxy example_core) @ [RunClosure (bound_closure 0 (Call2 ''OnIOEvent'' 3 4))])\<rparr>)" .
  have b: "WeakHandle_Call 2 example_handle (Call2 ''OnIOEvent'' 3 4) example_world =
     Inr (example_world\<lparr>cores := [0 \<mapsto> example_core\<lparr>ref_count := 2\<rparr>],
            queues := (\<lambda>t. [])(1 := [RunClosure (BindDoCall2 0 ''OnIOEvent'' 3 4)])\<rparr>)"
    unfolding r2 by (simp add: example_world_eq example_core_simps numeral_2_eq_2)
  show ?thesis using hyps own a b by blast
qed

section \<open>The states of a handle\<close>

lemma handle_after_const:
  assumes "op \<noteq> OpReset" "assigned op = None" "handle_after tid op h w = Inr (h', w')"
  shows "h' = h"
  using assms by (cases op) (auto simp add: andThen_Inr_iff)

lemma WeakHandle_assign_result:
  assumes "WeakHandle_assign tid h other w = Inr (h', w')"
  shows "h' = other"
  using assms
  by (auto simp add: WeakHandle_assign_def andThen_Inr_iff split: option.splits)

text \<open>
  Claim C7. A default-constructed handle is uninitialized. A handle constructed from a
  weak pointer is initialized, whatever the weak pointer refers to and whether or not its
  target is alive. A copy of a bound handle is initialized and has the same core.
  \<open>Reset\<close> leaves the handle uninitialized whenever it returns, and it returns
  from both states. Every other member, and being copied, leaves an initialized handle
  as it was. An assignment leaves the handle equal to the handle assigned: initialized,
  with the core of that handle, when that handle is initialized, and uninitialized when
  it is not. An assignment is the copy of the assigned handle and the destruction of the
  handle that was there.
\<close>

theorem handle_state_machine:
  "\<not> IsInitialized WeakHandle_default \<and>
   IsInitialized (fst (WeakHandle_ctor tid p w)) \<and>
   (core h = Some c \<and> cores w c = Some self \<longrightarrow>
      (\<exists>h' w'. WeakHandle_copy h w = Inr (h', w') \<and> IsInitialized h' \<and> core h' = core h)) \<and>
   (\<forall>h' w'. WeakHandle_Reset tid h w = Inr (h', w') \<longrightarrow> \<not> IsInitialized h') \<and>
   (\<not> IsInitialized h \<or>
    (core h = Some c \<and> cores w c = Some self \<and> 0 < ref_count self \<and>
     weak_ptrs w (ptr self) = Some q) \<longrightarrow>
      (\<exists>h' w'. WeakHandle_Reset tid h w = Inr (h', w'))) \<and>
   (\<forall>h' w'. IsInitialized h \<and> op \<noteq> OpReset \<and> assigned op = None \<and>
        handle_after tid op h w = Inr (h', w') \<longrightarrow>
      h' = h \<and> IsInitialized h') \<and>
   (\<forall>h' w'. handle_after tid (OpAssign other) h w = Inr (h', w') \<longrightarrow>
      h' = other \<and> core h' = core other \<and> (IsInitialized h' \<longleftrightarrow> IsInitialized other)) \<and>
   WeakHandle_assign tid h other w =
     andThen (WeakHandle_copy other w) (\<lambda>(h1, w1).
       andThen (WeakHandle_dtor tid h w1) (\<lambda>w2. Inr (h1, w2)))"
proof (intro conjI allI impI)
  show "WeakHandle_assign tid h other w =
     andThen (WeakHandle_copy other w) (\<lambda>(h1, w1).
       andThen (WeakHandle_dtor tid h w1) (\<lambda>w2. Inr (h1, w2)))"
    by (simp add: WeakHandle_assign_def WeakHandle_copy_def andThen_simps
        split: option.splits)
  show "\<not> IsInitialized WeakHandle_default"
    by (simp add: IsInitialized_def WeakHandle_default_def)
  show "IsInitialized (fst (WeakHandle_ctor tid p w))"
    by (simp add: IsInitialized_def make_defs)
  show "\<exists>h' w'. WeakHandle_copy h w = Inr (h', w') \<and> IsInitialized h' \<and> core h' = core h"
    if "core h = Some c \<and> cores w c = Some self"
    using that by (simp add: WeakHandle_copy_def IsInitialized_def)
  show "\<not> IsInitialized h'" if "WeakHandle_Reset tid h w = Inr (h', w')" for h' w'
    using that
    by (auto simp add: WeakHandle_Reset_def IsInitialized_def andThen_Inr_iff
        split: option.splits)
  show "\<exists>h' w'. WeakHandle_Reset tid h w = Inr (h', w')"
    if "\<not> IsInitialized h \<or>
        (core h = Some c \<and> cores w c = Some self \<and> 0 < ref_count self \<and>
         weak_ptrs w (ptr self) = Some q)"
    using that
    by (auto simp add: WeakHandle_Reset_def IsInitialized_def andThen_simps Release_def
        WeakHandleCore_dtor_def DeleteOnOwnerThread_def delete_WeakPtr_def)
  show "h' = h" "IsInitialized h'"
    if "IsInitialized h \<and> op \<noteq> OpReset \<and> assigned op = None \<and>
        handle_after tid op h w = Inr (h', w')" for h' w'
    using that handle_after_const[of op tid h w h' w'] by simp_all
  show "h' = other" "core h' = core other" "IsInitialized h' \<longleftrightarrow> IsInitialized other"
    if "handle_after tid (OpAssign other) h w = Inr (h', w')" for h' w'
    using that WeakHandle_assign_result[of tid h other w h' w'] by simp_all
qed

theorem handle_state_machine_witness:
  "IsInitialized (fst (WeakHandle_ctor 1 (WeakPtr (Some 7))
      (initial_world (\<lambda>t. False) :: (string, nat) World))) \<and>
   core example_handle = Some 0 \<and> cores example_world 0 = Some example_core \<and>
   0 < ref_count example_core \<and>
   weak_ptrs example_world (ptr example_core) = Some (WeakPtr (Some 7)) \<and>
   (\<exists>h' w'. WeakHandle_copy example_handle example_world = Inr (h', w') \<and>
      IsInitialized h' \<and> core h' = core example_handle) \<and>
   (\<exists>h' w'. WeakHandle_Reset 2 example_handle example_world = Inr (h', w') \<and>
      \<not> IsInitialized h') \<and>
   IsInitialized example_handle \<and>
   handle_after 2 (OpCall (Call0 ''OnIOStart'')) example_handle example_world =
     Inr (example_handle,
          example_world\<lparr>cores := [0 \<mapsto> example_core\<lparr>ref_count := 2\<rparr>],
            queues := (\<lambda>t. [])(1 := [RunClosure (BindDoCall0 0 ''OnIOStart'')])\<rparr>) \<and>
   handle_after 2 (OpAssign example_handle) WeakHandle_default example_world =
     Inr (example_handle,
          example_world\<lparr>cores := [0 \<mapsto> example_core\<lparr>ref_count := 2\<rparr>]\<rparr>) \<and>
   core example_handle = Some 0"
proof -
  have hyps: "core example_handle = Some 0" "cores example_world 0 = Some example_core"
    "0 < ref_count example_core"
    "weak_ptrs example_world (ptr example_core) = Some (WeakPtr (Some 7))"
    "IsInitialized example_handle"
    by (simp_all add: example_world_eq example_handle_eq example_core_simps IsInitialized_def)
  have after: "handle_after 2 (OpCall (Call0 ''OnIOStart'')) example_handle example_world =
     Inr (example_handle,
          example_world\<lparr>cores := [0 \<mapsto> example_core\<lparr>ref_count := 2\<rparr>],
            queues := (\<lambda>t. [])(1 := [RunClosure (BindDoCall0 0 ''OnIOStart'')])\<rparr>)"
    by (simp add: example_world_eq example_handle_eq example_core_def op_defs
        WeakHandle_Call0_def WeakHandleCore_Call0_def numeral_2_eq_2)
  have assign: "handle_after 2 (OpAssign example_handle) WeakHandle_default example_world =
     Inr (example_handle,
          example_world\<lparr>cores := [0 \<mapsto> example_core\<lparr>ref_count := 2\<rparr>]\<rparr>)"
    by (simp add: example_world_eq example_handle_eq example_core_def WeakHandle_assign_def
        WeakHandle_dtor_def WeakHandle_default_def AddRef_def andThen_simps numeral_2_eq_2)
  note sm = handle_state_machine[where tid = 2 and p = "WeakPtr (Some 7)" and w = example_world
      and h = example_handle and c = 0 and self = example_core and q = "WeakPtr (Some 7)"
      and op = "OpCall (Call0 ''OnIOStart'')"]
  note sm0 = handle_state_machine[where tid = 1 and p = "WeakPtr (Some 7)"
      and w = "initial_world (\<lambda>t. False) :: (string, nat) World"]
  note sm1 = handle_state_machine[where tid = 2 and w = example_world
      and h = WeakHandle_default and other = example_handle]
  note a = sm0[THEN conjunct2, THEN conjunct1]
  have b: "\<exists>h' w'. WeakHandle_copy example_handle example_world = Inr (h', w') \<and>
      IsInitialized h' \<and> core h' = core example_handle"
    using sm[THEN conjunct2, THEN conjunct2, THEN conjunct1] hyps(1,2) by simp
  have "\<exists>h' w'. WeakHandle_Reset 2 example_handle example_world = Inr (h', w')"
    using sm[THEN conjunct2, THEN conjunct2, THEN conjunct2, THEN conjunct2, THEN conjunct1]
      hyps(1-4)
    by simp
  then obtain h' w' where r: "WeakHandle_Reset 2 example_handle example_world = Inr (h', w')"
    by (elim exE)
  have "\<not> IsInitialized h'"
    using sm[THEN conjunct2, THEN conjunct2, THEN conjunct2, THEN conjunct1, rule_format, OF r] .
  with r have c: "\<exists>h' w'. WeakHandle_Reset 2 example_handle example_world = Inr (h', w') \<and>
      \<not> IsInitialized h'"
    by (intro exI conjI)
  have d: "core example_handle = Some 0"
    using sm1[THEN conjunct2, THEN conjunct2, THEN conjunct2, THEN conjunct2, THEN conjunct2,
        THEN conjunct2, THEN conjunct1, rule_format, OF assign] hyps(1)
    by simp
  show ?thesis
    using a b c d hyps after assign by (intro conjI)
qed

text \<open>
  An assignment is an operation other than \<^verbatim>\<open>Reset\<close> and destruction, and it
  takes a handle out of the bound state: after \<^verbatim>\<open>h = WeakHandle<T>()\<close> on thread 2
  the handle that was bound to core 0 is uninitialized. It held the only reference, so
  the core is gone and the deletion of its cell is queued for the owner thread.
\<close>

theorem handle_state_machine_counterexample:
  "IsInitialized example_handle \<and>
   (OpAssign WeakHandle_default :: (string, nat) HandleOp) \<noteq> OpReset \<and>
   handle_after 2 (OpAssign WeakHandle_default) example_handle example_world =
     Inr (WeakHandle_default,
          example_world\<lparr>cores := Map.empty,
            queues := (\<lambda>t. [])(1 := [DeleteSoonTask 0])\<rparr>) \<and>
   \<not> IsInitialized WeakHandle_default"
  by (simp add: example_world_eq example_handle_eq example_core_def WeakHandle_assign_def
      WeakHandle_dtor_def WeakHandle_default_def IsInitialized_def andThen_simps owner_defs
      Release_def WeakHandleCore_dtor_def DeleteOnOwnerThread_def DeleteSoon_def enqueue_def)

section \<open>A call from another thread\<close>









lemma example_busy_world_eq:
  "example_busy_world =
     \<lparr>cores = [0 \<mapsto> \<lparr>message_loop_proxy = 1, ptr = 0, ref_count = 2\<rparr>], next_core = 1,
      weak_ptrs = [0 \<mapsto> WeakPtr (Some 7)], next_ptr = 1, alive = (\<lambda>t. True),
      queues = (\<lambda>t. [])(1 := [RunClosure (BindDoCall1 0 ''OnIOEvent'' 5)]),
      accesses = [Access Construct 1 0], invoked = []\<rparr>"
  by (simp add: example_busy_world_def example_world_eq example_core_def)

lemma example_busy_world_reached:
  "WeakHandle_Call 2 example_handle (Call1 ''OnIOEvent'' 5) example_world =
     Inr example_busy_world"
  by (simp add: example_busy_world_eq example_world_eq example_handle_eq example_core_def
      op_defs numeral_2_eq_2)



end
